theory Spec2Isabelle
  imports Main "HOL-Library.Multiset" "HOL-Library.Option_ord"
begin

section \<open>Story, chapter and bubble documents\<close>

text \<open>
  The service of \<^verbatim>\<open>main.py\<close> keeps three collections of documents, \<^verbatim>\<open>story\<close>,
  \<^verbatim>\<open>chapter\<close> and \<^verbatim>\<open>bubble\<close>. A document is a dictionary; the handlers read it with
  \<^verbatim>\<open>d.get(key)\<close>, which gives \<^verbatim>\<open>None\<close> for an absent key, so every field the handlers
  read is optional here. Only \<^verbatim>\<open>_id\<close> is always there: the store gives one to every
  document. The values have the types the schemas of \<^verbatim>\<open>schemas.py\<close> give them.
\<close>

subsection \<open>Identifiers\<close>

text \<open>
  An identifier of the store is a string of bytes, twelve of them in every identifier the
  store makes. \<^verbatim>\<open>ObjectId(s)\<close> takes a string of 24 characters and reads it with
  \<^verbatim>\<open>bytes.fromhex\<close>: two hexadecimal digits of either case make a byte, ASCII
  whitespace is skipped before a byte and at the end of the string, and anything else is
  refused. How many bytes were read is not checked, so a string of 22 digits and two
  blanks is read as eleven bytes. \<^verbatim>\<open>ObjectId.is_valid(s)\<close> is false for the empty string
  and otherwise tells whether \<^verbatim>\<open>ObjectId(s)\<close> can be built. \<^verbatim>\<open>str(oid)\<close> writes the
  bytes as lower-case digits; the identifier is kept as these digits.
\<close>

datatype objectid = Oid string

definition is_hex :: "char \<Rightarrow> bool" where
  "is_hex c = (c \<in> set ''0123456789abcdefABCDEF'')"

definition hex_lower :: "char \<Rightarrow> char" where
  "hex_lower c =
     (if c = CHR ''A'' then CHR ''a'' else if c = CHR ''B'' then CHR ''b''
      else if c = CHR ''C'' then CHR ''c'' else if c = CHR ''D'' then CHR ''d''
      else if c = CHR ''E'' then CHR ''e'' else if c = CHR ''F'' then CHR ''f'' else c)"

text \<open>
  The whitespace of \<^verbatim>\<open>bytes.fromhex\<close>: tab, line feed, vertical tab, form feed,
  carriage return and the blank.
\<close>

definition is_space :: "char \<Rightarrow> bool" where
  "is_space c = (c \<in> set [CHR 0x09, CHR 0x0A, CHR 0x0B, CHR 0x0C, CHR 0x0D, CHR 0x20])"

text \<open>
  \<^verbatim>\<open>bytes.fromhex(s)\<close>, with the bytes written as lower-case digits and \<open>None\<close> for
  \<^verbatim>\<open>ValueError\<close>. Whitespace between the two digits of a byte is refused, as is a digit
  left alone at the end.
\<close>

fun fromhex :: "string \<Rightarrow> string option" where
  "fromhex [] = Some []"
| "fromhex [c] = (if is_space c then Some [] else None)"
| "fromhex (c # c' # cs) =
     (if is_space c then fromhex (c' # cs)
      else if is_hex c \<and> is_hex c'
        then map_option (\<lambda>h. hex_lower c # hex_lower c' # h) (fromhex cs)
      else None)"

definition is_valid :: "string \<Rightarrow> bool" where
  "is_valid s = (s \<noteq> [] \<and> length s = 24 \<and> fromhex s \<noteq> None)"

text \<open>
  The handlers build an identifier only from a string that \<open>is_valid\<close> has accepted, for
  which \<^verbatim>\<open>bytes.fromhex\<close> has a result.
\<close>

definition ObjectId :: "string \<Rightarrow> objectid" where
  "ObjectId s = Oid (the (fromhex s))"

fun str :: "objectid \<Rightarrow> string" where
  "str (Oid s) = s"

subsection \<open>Stored documents\<close>

record story_doc =
  story_oid :: objectid
  story_title :: "string option"
  story_author :: "string option"
  story_cover_image :: "string option"
  story_description :: "string option"

record chapter_doc =
  chapter_oid :: objectid
  chapter_story_id :: "string option"
  chapter_title :: "string option"
  chapter_order :: "int option"

record bubble_doc =
  bubble_oid :: objectid
  bubble_chapter_id :: "string option"
  bubble_content_html :: "string option"
  bubble_order :: "int option"

subsection \<open>The store\<close>

text \<open>
  The state of the store: the three collections in storage order (\<open>stories\<close> is
  \<^verbatim>\<open>db["story"]\<close>, and so on), the counter the next identifier is made from, and
  \<open>oplog\<close>, the calls made on the store so far, oldest first. The log is what lets a
  statement say that a handler fails before it touches the store: every call of the
  source on \<^verbatim>\<open>db[...]\<close>, \<^verbatim>\<open>get_documents\<close> or \<^verbatim>\<open>create_document\<close> adds one entry. The
  store is taken to answer every call.
\<close>

datatype store_op = FindOne string | Find string | CountDocuments string | InsertOne string

record db =
  stories :: "story_doc list"
  chapters :: "chapter_doc list"
  bubbles :: "bubble_doc list"
  next_oid :: nat
  oplog :: "store_op list"

definition log_op :: "store_op \<Rightarrow> db \<Rightarrow> db" where
  "log_op x d = d\<lparr>oplog := oplog d @ [x]\<rparr>"

subsection \<open>Errors\<close>

text \<open>
  \<open>HTTPException\<close> is what the handlers raise themselves, with its status code and
  detail. \<open>RequestValidationError\<close> is the rejection of a request body that does not fit
  the handler's payload class, before the handler runs. \<open>ValidationError\<close> is the
  exception a model class raises when it is built inside a handler; no handler catches
  it.
\<close>

datatype error =
    HTTPException nat string
  | RequestValidationError
  | ValidationError

fun status_code :: "error \<Rightarrow> nat" where
  "status_code (HTTPException c detail) = c"
| "status_code RequestValidationError = 422"
| "status_code ValidationError = 500"

section \<open>The store adapter\<close>

subsection \<open>Calls on the collections made by main.py\<close>

definition find_one_story :: "objectid \<Rightarrow> db \<Rightarrow> story_doc option \<times> db" where
  "find_one_story oid d =
     (List.find (\<lambda>s. story_oid s = oid) (stories d), log_op (FindOne ''story'') d)"

definition count_documents_story :: "objectid \<Rightarrow> db \<Rightarrow> nat \<times> db" where
  "count_documents_story oid d =
     (length (filter (\<lambda>s. story_oid s = oid) (stories d)), log_op (CountDocuments ''story'') d)"

definition count_documents_chapter :: "objectid \<Rightarrow> db \<Rightarrow> nat \<times> db" where
  "count_documents_chapter oid d =
     (length (filter (\<lambda>c. chapter_oid c = oid) (chapters d)),
      log_op (CountDocuments ''chapter'') d)"

text \<open>
  \<^verbatim>\<open>find({"story_id": s}).sort("order", 1)\<close>: the documents whose field equals the
  string, sorted by the store. The store puts a document without the field before every
  number, which is the order of \<open>int option\<close>; how it arranges equal keys is not fixed,
  and the model keeps them in storage order.
\<close>

definition find_chapter_sort :: "string \<Rightarrow> db \<Rightarrow> chapter_doc list \<times> db" where
  "find_chapter_sort sid d =
     (sort_key chapter_order (filter (\<lambda>c. chapter_story_id c = Some sid) (chapters d)),
      log_op (Find ''chapter'') d)"

definition find_bubble_sort :: "string \<Rightarrow> db \<Rightarrow> bubble_doc list \<times> db" where
  "find_bubble_sort cid d =
     (sort_key bubble_order (filter (\<lambda>b. bubble_chapter_id b = Some cid) (bubbles d)),
      log_op (Find ''bubble'') d)"

subsection \<open>The helpers of database.py\<close>

text \<open>
  Modelled from the spec: \<^verbatim>\<open>get_documents("chapter", {"story_id": s})\<close> of
  \<^verbatim>\<open>database.py\<close>, which is not among the sources. The spec's
  \<^verbatim>\<open>findAll(collectionName, filter)\<close> "returns all records matching an equality filter",
  with "no ordering guarantee from the store itself"; the model returns them in storage
  order.
\<close>

definition get_documents_chapter :: "string \<Rightarrow> db \<Rightarrow> chapter_doc list \<times> db" where
  "get_documents_chapter sid d =
     (filter (\<lambda>c. chapter_story_id c = Some sid) (chapters d), log_op (Find ''chapter'') d)"

text \<open>
  Modelled from the spec: \<^verbatim>\<open>get_documents("bubble", {"chapter_id": c})\<close> of
  \<^verbatim>\<open>database.py\<close>, the same \<^verbatim>\<open>findAll\<close> on the bubble collection.
\<close>

definition get_documents_bubble :: "string \<Rightarrow> db \<Rightarrow> bubble_doc list \<times> db" where
  "get_documents_bubble cid d =
     (filter (\<lambda>b. bubble_chapter_id b = Some cid) (bubbles d), log_op (Find ''bubble'') d)"

text \<open>
  The identifier of a new document is the store's counter written as 24 hexadecimal
  digits, most significant first.
\<close>

definition hex_digit :: "nat \<Rightarrow> char" where
  "hex_digit n = ''0123456789abcdef'' ! (n mod 16)"

fun hex_digits :: "nat \<Rightarrow> nat \<Rightarrow> string" where
  "hex_digits 0 n = []"
| "hex_digits (Suc k) n = hex_digits k (n div 16) @ [hex_digit n]"

definition new_oid :: "db \<Rightarrow> objectid" where
  "new_oid d = Oid (hex_digits 24 (next_oid d))"

section \<open>The model classes\<close>

subsection \<open>The schemas of schemas.py\<close>

record Story =
  title :: string
  author :: "string option"
  cover_image :: "string option"
  description :: "string option"

record Chapter =
  chapter_story_id_of :: string
  chapter_title_of :: string
  chapter_order_of :: int

record Bubble =
  bubble_chapter_id_of :: string
  bubble_content_html_of :: string
  bubble_order_of :: int

subsection \<open>The payload and response classes of main.py\<close>

record StoryCreate =
  sc_title :: string
  sc_author :: "string option"
  sc_cover_image :: "string option"
  sc_description :: "string option"

record ChapterCreate =
  cc_story_id :: string
  cc_title :: string
  cc_order :: int

record BubbleCreate =
  bc_chapter_id :: string
  bc_content_html :: string
  bc_order :: int

record ChapterOut =
  co_id :: string
  co_story_id :: string
  co_title :: string
  co_order :: int

record BubbleOut =
  bo_id :: string
  bo_chapter_id :: string
  bo_content_html :: string
  bo_order :: int

text \<open>
  Building a schema object from \<^verbatim>\<open>payload.model_dump()\<close>. The fields arrive with the
  types of the payload class, so the only check left is \<^verbatim>\<open>ge=0\<close> on \<^verbatim>\<open>order\<close>; the
  \<^verbatim>\<open>Story\<close> schema has no constraint and never fails.
\<close>

definition StorySchema :: "StoryCreate \<Rightarrow> error + Story" where
  "StorySchema p =
     Inr \<lparr>title = sc_title p, author = sc_author p, cover_image = sc_cover_image p,
          description = sc_description p\<rparr>"

definition ChapterSchema :: "ChapterCreate \<Rightarrow> error + Chapter" where
  "ChapterSchema p =
     (if cc_order p \<ge> 0
      then Inr \<lparr>chapter_story_id_of = cc_story_id p, chapter_title_of = cc_title p,
                chapter_order_of = cc_order p\<rparr>
      else Inl ValidationError)"

definition BubbleSchema :: "BubbleCreate \<Rightarrow> error + Bubble" where
  "BubbleSchema p =
     (if bc_order p \<ge> 0
      then Inr \<lparr>bubble_chapter_id_of = bc_chapter_id p,
                bubble_content_html_of = bc_content_html p, bubble_order_of = bc_order p\<rparr>
      else Inl ValidationError)"

text \<open>
  Building a response object from the fields read off a document: \<^verbatim>\<open>story_id\<close>,
  \<^verbatim>\<open>title\<close> and \<^verbatim>\<open>content_html\<close> are declared \<^verbatim>\<open>str\<close>, so \<^verbatim>\<open>None\<close> is refused.
\<close>

fun mk_ChapterOut :: "string \<Rightarrow> string option \<Rightarrow> string option \<Rightarrow> int \<Rightarrow> error + ChapterOut" where
  "mk_ChapterOut i (Some s) (Some t) n =
     Inr \<lparr>co_id = i, co_story_id = s, co_title = t, co_order = n\<rparr>"
| "mk_ChapterOut i s t n = Inl ValidationError"

fun mk_BubbleOut :: "string \<Rightarrow> string option \<Rightarrow> string option \<Rightarrow> int \<Rightarrow> error + BubbleOut" where
  "mk_BubbleOut i (Some c) (Some h) n =
     Inr \<lparr>bo_id = i, bo_chapter_id = c, bo_content_html = h, bo_order = n\<rparr>"
| "mk_BubbleOut i c h n = Inl ValidationError"

subsection \<open>Request bodies\<close>

text \<open>
  The body of a request is a JSON object, read into a dictionary. A field declared
  \<^verbatim>\<open>str\<close> takes a JSON string and nothing else; one declared \<^verbatim>\<open>Optional[str] = None\<close>
  may also be absent or \<^verbatim>\<open>null\<close>. Keys the class does not declare are ignored.
\<close>

datatype json =
    JNull | JBool bool | JInt int | JStr string | JArr "json list" | JObj "(string \<times> json) list"

fun required_str :: "json option \<Rightarrow> error + string" where
  "required_str (Some (JStr s)) = Inr s"
| "required_str j = Inl RequestValidationError"

fun optional_str :: "json option \<Rightarrow> error + string option" where
  "optional_str None = Inr None"
| "optional_str (Some JNull) = Inr None"
| "optional_str (Some (JStr s)) = Inr (Some s)"
| "optional_str j = Inl RequestValidationError"

definition StoryCreate_validate :: "(string \<rightharpoonup> json) \<Rightarrow> error + StoryCreate" where
  "StoryCreate_validate body =
     (case required_str (body ''title'') of Inl e \<Rightarrow> Inl e | Inr t \<Rightarrow>
     (case optional_str (body ''author'') of Inl e \<Rightarrow> Inl e | Inr a \<Rightarrow>
     (case optional_str (body ''cover_image'') of Inl e \<Rightarrow> Inl e | Inr c \<Rightarrow>
     (case optional_str (body ''description'') of Inl e \<Rightarrow> Inl e | Inr ds \<Rightarrow>
        Inr \<lparr>sc_title = t, sc_author = a, sc_cover_image = c, sc_description = ds\<rparr>))))"

section \<open>Writing documents\<close>

text \<open>
  Modelled from the spec: \<^verbatim>\<open>create_document("story", story)\<close> of \<^verbatim>\<open>database.py\<close>,
  which is not among the sources. The spec's \<^verbatim>\<open>insert(collectionName, record)\<close> "stores
  record, returns newly assigned opaque identity (string form of an internally generated
  unique id)".
\<close>

definition create_document_story :: "Story \<Rightarrow> db \<Rightarrow> string \<times> db" where
  "create_document_story data d =
     (let oid = new_oid d;
          doc = \<lparr>story_oid = oid, story_title = Some (title data),
                 story_author = author data, story_cover_image = cover_image data,
                 story_description = description data\<rparr>
      in (str oid,
          log_op (InsertOne ''story'')
            (d\<lparr>stories := stories d @ [doc], next_oid := Suc (next_oid d)\<rparr>)))"

text \<open>
  Modelled from the spec: \<^verbatim>\<open>create_document("chapter", chapter)\<close> of \<^verbatim>\<open>database.py\<close>,
  the same \<^verbatim>\<open>insert\<close> on the chapter collection.
\<close>

definition create_document_chapter :: "Chapter \<Rightarrow> db \<Rightarrow> string \<times> db" where
  "create_document_chapter data d =
     (let oid = new_oid d;
          doc = \<lparr>chapter_oid = oid, chapter_story_id = Some (chapter_story_id_of data),
                 chapter_title = Some (chapter_title_of data),
                 chapter_order = Some (chapter_order_of data)\<rparr>
      in (str oid,
          log_op (InsertOne ''chapter'')
            (d\<lparr>chapters := chapters d @ [doc], next_oid := Suc (next_oid d)\<rparr>)))"

text \<open>
  Modelled from the spec: \<^verbatim>\<open>create_document("bubble", bubble)\<close> of \<^verbatim>\<open>database.py\<close>,
  the same \<^verbatim>\<open>insert\<close> on the bubble collection.
\<close>

definition create_document_bubble :: "Bubble \<Rightarrow> db \<Rightarrow> string \<times> db" where
  "create_document_bubble data d =
     (let oid = new_oid d;
          doc = \<lparr>bubble_oid = oid, bubble_chapter_id = Some (bubble_chapter_id_of data),
                 bubble_content_html = Some (bubble_content_html_of data),
                 bubble_order = Some (bubble_order_of data)\<rparr>
      in (str oid,
          log_op (InsertOne ''bubble'')
            (d\<lparr>bubbles := bubbles d @ [doc], next_oid := Suc (next_oid d)\<rparr>)))"

section \<open>The handlers of main.py\<close>

subsection \<open>Stories\<close>

definition create_story :: "StoryCreate \<Rightarrow> db \<Rightarrow> (error + string) \<times> db" where
  "create_story payload d =
     (case StorySchema payload of
        Inl e \<Rightarrow> (Inl e, d)
      | Inr story \<Rightarrow> (case create_document_story story d of (i, d1) \<Rightarrow> (Inr i, d1)))"

text \<open>
  \<^verbatim>\<open>POST /api/stories\<close>: the body is checked against \<^verbatim>\<open>StoryCreate\<close> and the handler
  runs only on a body that fits.
\<close>

definition post_stories :: "(string \<rightharpoonup> json) \<Rightarrow> db \<Rightarrow> (error + string) \<times> db" where
  "post_stories body d =
     (case StoryCreate_validate body of
        Inl e \<Rightarrow> (Inl e, d)
      | Inr payload \<Rightarrow> create_story payload d)"

text \<open>
  The entries of the story detail are plain dictionaries, so a title or content that the
  document lacks goes out as \<^verbatim>\<open>None\<close>; \<^verbatim>\<open>order\<close> is read with the default 0.
\<close>

record bubble_entry =
  be_id :: string
  be_content_html :: "string option"
  be_order :: int

record chapter_entry =
  ce_id :: string
  ce_title :: "string option"
  ce_order :: int
  ce_bubbles :: "bubble_entry list"

record story_detail =
  sd_id :: string
  sd_title :: "string option"
  sd_author :: "string option"
  sd_cover_image :: "string option"
  sd_description :: "string option"
  sd_chapters :: "chapter_entry list"

definition chapter_get_order :: "chapter_doc \<Rightarrow> int" where
  "chapter_get_order x = (case chapter_order x of None \<Rightarrow> 0 | Some n \<Rightarrow> n)"

definition bubble_get_order :: "bubble_doc \<Rightarrow> int" where
  "bubble_get_order x = (case bubble_order x of None \<Rightarrow> 0 | Some n \<Rightarrow> n)"

definition bubble_entry_of :: "bubble_doc \<Rightarrow> bubble_entry" where
  "bubble_entry_of b =
     \<lparr>be_id = str (bubble_oid b), be_content_html = bubble_content_html b,
      be_order = bubble_get_order b\<rparr>"

text \<open>The loop over the chapters: one query on the bubble collection for each.\<close>

fun chapter_list :: "chapter_doc list \<Rightarrow> db \<Rightarrow> chapter_entry list \<times> db" where
  "chapter_list [] d = ([], d)"
| "chapter_list (ch # chs) d =
     (case find_bubble_sort (str (chapter_oid ch)) d of (bs, d1) \<Rightarrow>
      (case chapter_list chs d1 of (es, d2) \<Rightarrow>
        (\<lparr>ce_id = str (chapter_oid ch), ce_title = chapter_title ch,
          ce_order = chapter_get_order ch, ce_bubbles = map bubble_entry_of bs\<rparr> # es, d2)))"

definition get_story_detail :: "string \<Rightarrow> db \<Rightarrow> (error + story_detail) \<times> db" where
  "get_story_detail story_id d =
     (if \<not> is_valid story_id then (Inl (HTTPException 400 ''Invalid story id''), d)
      else (case find_one_story (ObjectId story_id) d of
              (None, d1) \<Rightarrow> (Inl (HTTPException 404 ''Story not found''), d1)
            | (Some s, d1) \<Rightarrow>
               (case find_chapter_sort story_id d1 of (chs, d2) \<Rightarrow>
               (case chapter_list chs d2 of (cl, d3) \<Rightarrow>
                 (Inr \<lparr>sd_id = str (story_oid s), sd_title = story_title s,
                       sd_author = story_author s, sd_cover_image = story_cover_image s,
                       sd_description = story_description s, sd_chapters = cl\<rparr>, d3)))))"

subsection \<open>Chapters\<close>

definition create_chapter :: "ChapterCreate \<Rightarrow> db \<Rightarrow> (error + string) \<times> db" where
  "create_chapter payload d =
     (if \<not> is_valid (cc_story_id payload)
      then (Inl (HTTPException 400 ''Invalid story id''), d)
      else (case count_documents_story (ObjectId (cc_story_id payload)) d of (n, d1) \<Rightarrow>
        if n = 0 then (Inl (HTTPException 404 ''Parent story not found''), d1)
        else (case ChapterSchema payload of
                Inl e \<Rightarrow> (Inl e, d1)
              | Inr ch \<Rightarrow> (case create_document_chapter ch d1 of (i, d2) \<Rightarrow> (Inr i, d2)))))"

text \<open>
  \<^verbatim>\<open>sorted(docs, key=...)\<close> is a stable sort, as \<open>sort_key\<close> is; the list
  comprehension stops at the first \<^verbatim>\<open>ChapterOut\<close> that cannot be built.
\<close>

definition sorted_by :: "('a \<Rightarrow> int) \<Rightarrow> 'a list \<Rightarrow> 'a list" where
  "sorted_by key docs = sort_key key docs"

fun chapter_outs :: "chapter_doc list \<Rightarrow> error + ChapterOut list" where
  "chapter_outs [] = Inr []"
| "chapter_outs (x # xs) =
     (case mk_ChapterOut (str (chapter_oid x)) (chapter_story_id x) (chapter_title x)
             (chapter_get_order x) of
        Inl e \<Rightarrow> Inl e
      | Inr y \<Rightarrow> (case chapter_outs xs of Inl e \<Rightarrow> Inl e | Inr ys \<Rightarrow> Inr (y # ys)))"

definition list_chapters :: "string \<Rightarrow> db \<Rightarrow> (error + ChapterOut list) \<times> db" where
  "list_chapters story_id d =
     (case get_documents_chapter story_id d of (docs, d1) \<Rightarrow>
        (chapter_outs (sorted_by chapter_get_order docs), d1))"

subsection \<open>Bubbles\<close>

definition create_bubble :: "BubbleCreate \<Rightarrow> db \<Rightarrow> (error + string) \<times> db" where
  "create_bubble payload d =
     (if \<not> is_valid (bc_chapter_id payload)
      then (Inl (HTTPException 400 ''Invalid chapter id''), d)
      else (case count_documents_chapter (ObjectId (bc_chapter_id payload)) d of (n, d1) \<Rightarrow>
        if n = 0 then (Inl (HTTPException 404 ''Parent chapter not found''), d1)
        else (case BubbleSchema payload of
                Inl e \<Rightarrow> (Inl e, d1)
              | Inr b \<Rightarrow> (case create_document_bubble b d1 of (i, d2) \<Rightarrow> (Inr i, d2)))))"

fun bubble_outs :: "bubble_doc list \<Rightarrow> error + BubbleOut list" where
  "bubble_outs [] = Inr []"
| "bubble_outs (x # xs) =
     (case mk_BubbleOut (str (bubble_oid x)) (bubble_chapter_id x) (bubble_content_html x)
             (bubble_get_order x) of
        Inl e \<Rightarrow> Inl e
      | Inr y \<Rightarrow> (case bubble_outs xs of Inl e \<Rightarrow> Inl e | Inr ys \<Rightarrow> Inr (y # ys)))"

definition list_bubbles :: "string \<Rightarrow> db \<Rightarrow> (error + BubbleOut list) \<times> db" where
  "list_bubbles chapter_id d =
     (case get_documents_bubble chapter_id d of (docs, d1) \<Rightarrow>
        (bubble_outs (sorted_by bubble_get_order docs), d1))"

section \<open>Relating responses to documents\<close>

text \<open>
  \<open>chapter_out_of x y\<close>: the response object \<open>y\<close> is the one \<^verbatim>\<open>list_chapters\<close> builds
  from the document \<open>x\<close>; \<open>bubble_out_of\<close> likewise for \<^verbatim>\<open>list_bubbles\<close>.
\<close>

definition chapter_out_of :: "chapter_doc \<Rightarrow> ChapterOut \<Rightarrow> bool" where
  "chapter_out_of x y =
     (co_id y = str (chapter_oid x) \<and> chapter_story_id x = Some (co_story_id y) \<and>
      chapter_title x = Some (co_title y) \<and> co_order y = chapter_get_order x)"

definition bubble_out_of :: "bubble_doc \<Rightarrow> BubbleOut \<Rightarrow> bool" where
  "bubble_out_of x y =
     (bo_id y = str (bubble_oid x) \<and> bubble_chapter_id x = Some (bo_chapter_id y) \<and>
      bubble_content_html x = Some (bo_content_html y) \<and> bo_order y = bubble_get_order x)"


text \<open>
  Giving the \<^verbatim>\<open>order\<close> 0 to every document that has no \<^verbatim>\<open>order\<close> field; a document
  that has one is left as it is.
\<close>

definition chapter_fill_order :: "chapter_doc \<Rightarrow> chapter_doc" where
  "chapter_fill_order x =
     (case chapter_order x of None \<Rightarrow> x\<lparr>chapter_order := Some 0\<rparr> | Some n \<Rightarrow> x)"

definition bubble_fill_order :: "bubble_doc \<Rightarrow> bubble_doc" where
  "bubble_fill_order x =
     (case bubble_order x of None \<Rightarrow> x\<lparr>bubble_order := Some 0\<rparr> | Some n \<Rightarrow> x)"

definition fill_orders :: "db \<Rightarrow> db" where
  "fill_orders d =
     d\<lparr>chapters := map chapter_fill_order (chapters d),
       bubbles := map bubble_fill_order (bubbles d)\<rparr>"

section \<open>An example store\<close>

text \<open>
  One story with three chapters, a chapter of another story, and three bubbles. Chapter
  \<open>ex_c3\<close> and bubble \<open>ex_b3\<close> have no \<^verbatim>\<open>order\<close>; bubbles of different chapters share
  the order 0.
\<close>

definition ex_S1 :: string where "ex_S1 = ''5f0000000000000000000001''"

definition ex_S2 :: string where "ex_S2 = ''5f0000000000000000000002''"

definition ex_C1 :: string where "ex_C1 = ''5f00000000000000000000c1''"

definition ex_C2 :: string where "ex_C2 = ''5f00000000000000000000c2''"

definition ex_C3 :: string where "ex_C3 = ''5f00000000000000000000c3''"

definition ex_C4 :: string where "ex_C4 = ''5f00000000000000000000c4''"

text \<open>
  A string that \<^verbatim>\<open>ObjectId.is_valid\<close> accepts although it is not 24 digits, and one of
  24 characters that it refuses.
\<close>

definition ex_blanks :: string where "ex_blanks = ''5f00000000000000000000  ''"

definition ex_no_hex :: string where "ex_no_hex = ''5g0000000000000000000001''"

definition ex_s1 :: story_doc where
  "ex_s1 = \<lparr>story_oid = Oid ex_S1, story_title = Some ''A'', story_author = None,
            story_cover_image = None, story_description = None\<rparr>"

definition ex_c1 :: chapter_doc where
  "ex_c1 = \<lparr>chapter_oid = Oid ex_C1, chapter_story_id = Some ex_S1,
            chapter_title = Some ''C1'', chapter_order = Some 1\<rparr>"

definition ex_c2 :: chapter_doc where
  "ex_c2 = \<lparr>chapter_oid = Oid ex_C2, chapter_story_id = Some ex_S1,
            chapter_title = Some ''C2'', chapter_order = Some 0\<rparr>"

definition ex_c3 :: chapter_doc where
  "ex_c3 = \<lparr>chapter_oid = Oid ex_C3, chapter_story_id = Some ex_S1,
            chapter_title = Some ''C3'', chapter_order = None\<rparr>"

definition ex_c4 :: chapter_doc where
  "ex_c4 = \<lparr>chapter_oid = Oid ex_C4, chapter_story_id = Some ex_S2,
            chapter_title = Some ''D1'', chapter_order = Some 0\<rparr>"

definition ex_b1 :: bubble_doc where
  "ex_b1 = \<lparr>bubble_oid = Oid ''5f00000000000000000000b1'', bubble_chapter_id = Some ex_C1,
            bubble_content_html = Some ''<p>x</p>'', bubble_order = Some 0\<rparr>"

definition ex_b2 :: bubble_doc where
  "ex_b2 = \<lparr>bubble_oid = Oid ''5f00000000000000000000b2'', bubble_chapter_id = Some ex_C2,
            bubble_content_html = Some ''<p>y</p>'', bubble_order = Some 0\<rparr>"

definition ex_b3 :: bubble_doc where
  "ex_b3 = \<lparr>bubble_oid = Oid ''5f00000000000000000000b3'', bubble_chapter_id = Some ex_C1,
            bubble_content_html = Some ''<p>z</p>'', bubble_order = None\<rparr>"

definition ex_db :: db where
  "ex_db = \<lparr>stories = [ex_s1], chapters = [ex_c1, ex_c2, ex_c3, ex_c4],
            bubbles = [ex_b1, ex_b2, ex_b3], next_oid = 256, oplog = []\<rparr>"

text \<open>A store in which the story has no chapter.\<close>

definition ex_db2 :: db where
  "ex_db2 = \<lparr>stories = [ex_s1], chapters = [ex_c4], bubbles = [ex_b1, ex_b2],
             next_oid = 256, oplog = []\<rparr>"

text \<open>The detail of the story in \<open>ex_db\<close>.\<close>

definition ex_detail :: story_detail where
  "ex_detail =
     \<lparr>sd_id = ex_S1, sd_title = Some ''A'', sd_author = None, sd_cover_image = None,
      sd_description = None,
      sd_chapters =
        [\<lparr>ce_id = ex_C3, ce_title = Some ''C3'', ce_order = 0, ce_bubbles = []\<rparr>,
         \<lparr>ce_id = ex_C2, ce_title = Some ''C2'', ce_order = 0,
          ce_bubbles =
            [\<lparr>be_id = ''5f00000000000000000000b2'', be_content_html = Some ''<p>y</p>'',
              be_order = 0\<rparr>]\<rparr>,
         \<lparr>ce_id = ex_C1, ce_title = Some ''C1'', ce_order = 1,
          ce_bubbles =
            [\<lparr>be_id = ''5f00000000000000000000b3'', be_content_html = Some ''<p>z</p>'',
              be_order = 0\<rparr>,
             \<lparr>be_id = ''5f00000000000000000000b1'', be_content_html = Some ''<p>x</p>'',
              be_order = 0\<rparr>]\<rparr>]\<rparr>"

text \<open>The listings of the chapters of the story and of the bubbles of its first chapter.\<close>

definition ex_chapter_listing :: "ChapterOut list" where
  "ex_chapter_listing =
     [\<lparr>co_id = ex_C2, co_story_id = ex_S1, co_title = ''C2'', co_order = 0\<rparr>,
      \<lparr>co_id = ex_C3, co_story_id = ex_S1, co_title = ''C3'', co_order = 0\<rparr>,
      \<lparr>co_id = ex_C1, co_story_id = ex_S1, co_title = ''C1'', co_order = 1\<rparr>]"

definition ex_bubble_listing :: "BubbleOut list" where
  "ex_bubble_listing =
     [\<lparr>bo_id = ''5f00000000000000000000b1'', bo_chapter_id = ex_C1,
       bo_content_html = ''<p>x</p>'', bo_order = 0\<rparr>,
      \<lparr>bo_id = ''5f00000000000000000000b3'', bo_chapter_id = ex_C1,
       bo_content_html = ''<p>z</p>'', bo_order = 0\<rparr>]"

text \<open>Requests used below.\<close>

definition ex_empty_title :: "string \<rightharpoonup> json" where
  "ex_empty_title = [''title'' \<mapsto> JStr []]"

definition ex_no_title :: "string \<rightharpoonup> json" where
  "ex_no_title = [''author'' \<mapsto> JStr ''B'']"

definition ex_wrong_title :: "string \<rightharpoonup> json" where
  "ex_wrong_title = [''title'' \<mapsto> JInt 5]"

definition ex_negative_chapter :: ChapterCreate where
  "ex_negative_chapter = \<lparr>cc_story_id = ex_S1, cc_title = ''T'', cc_order = - 1\<rparr>"

definition ex_negative_bubble :: BubbleCreate where
  "ex_negative_bubble =
     \<lparr>bc_chapter_id = ex_C1, bc_content_html = ''<p>n</p>'', bc_order = - 1\<rparr>"



section \<open>Facts about the store calls\<close>

lemma log_op_fields:
  "stories (log_op x d) = stories d" "chapters (log_op x d) = chapters d"
  "bubbles (log_op x d) = bubbles d" "next_oid (log_op x d) = next_oid d"
  "oplog (log_op x d) = oplog d @ [x]"
  by (simp_all add: log_op_def)




lemma count_documents_story_0:
  "fst (count_documents_story oid d) = 0 \<longleftrightarrow> oid \<notin> story_oid ` set (stories d)"
  by (auto simp: count_documents_story_def filter_empty_conv)

lemma count_documents_chapter_0:
  "fst (count_documents_chapter oid d) = 0 \<longleftrightarrow> oid \<notin> chapter_oid ` set (chapters d)"
  by (auto simp: count_documents_chapter_def filter_empty_conv)

lemma snd_count_documents:
  "snd (count_documents_story oid d) = log_op (CountDocuments ''story'') d"
  "snd (count_documents_chapter oid d) = log_op (CountDocuments ''chapter'') d"
  by (simp_all add: count_documents_story_def count_documents_chapter_def)





section \<open>Facts about the example store\<close>

lemmas ex_defs =
  ex_db_def ex_s1_def ex_c1_def ex_c2_def ex_c3_def ex_c4_def ex_b1_def ex_b2_def ex_b3_def
  ex_S1_def ex_S2_def ex_C1_def ex_C2_def ex_C3_def ex_C4_def

lemma ex_fromhex:
  "fromhex ex_S1 = Some ex_S1" "fromhex ex_S2 = Some ex_S2"
  "fromhex ex_C1 = Some ex_C1" "fromhex ex_C4 = Some ex_C4"
  "fromhex ex_blanks = Some ''5f00000000000000000000''"
  "fromhex ex_no_hex = None"
  by (simp_all add: is_hex_def is_space_def hex_lower_def ex_defs ex_blanks_def ex_no_hex_def)

lemma ex_is_valid:
  "is_valid ex_S1" "is_valid ex_S2" "is_valid ex_C1" "is_valid ex_C4"
  "\<not> is_valid ''not-an-id''"
  by (simp_all add: is_valid_def ex_fromhex) (simp_all add: ex_defs)


lemma ex_ObjectId:
  "ObjectId ex_S1 = Oid ex_S1" "ObjectId ex_S2 = Oid ex_S2"
  "ObjectId ex_C1 = Oid ex_C1" "ObjectId ex_C4 = Oid ex_C4"
  "ObjectId ex_blanks = Oid ''5f00000000000000000000''"
  by (simp_all add: ObjectId_def ex_fromhex)

lemma ex_parents:
  "ObjectId ex_S1 \<in> story_oid ` set (stories ex_db)"
  "ObjectId ex_S2 \<notin> story_oid ` set (stories ex_db)"
  "ObjectId ex_C1 \<in> chapter_oid ` set (chapters ex_db)"
  "ObjectId ex_S2 \<notin> chapter_oid ` set (chapters ex_db)"
  by (simp_all add: ex_ObjectId) (simp_all add: ex_defs)


section \<open>Error paths of the story detail\<close>



section \<open>Parent checks of the create handlers\<close>





section \<open>The listing handlers\<close>

lemma chapter_outs_Inr:
  "\<forall>x \<in> set xs. chapter_story_id x \<noteq> None \<and> chapter_title x \<noteq> None \<Longrightarrow>
   \<exists>ys. chapter_outs xs = Inr ys \<and> list_all2 chapter_out_of xs ys"
proof (induction xs)
  case Nil
  then show ?case by simp
next
  case (Cons x xs)
  then obtain ys where ys: "chapter_outs xs = Inr ys" "list_all2 chapter_out_of xs ys"
    by auto
  from Cons.prems obtain s t where st: "chapter_story_id x = Some s" "chapter_title x = Some t"
    by auto
  define y where "y = \<lparr>co_id = str (chapter_oid x), co_story_id = s, co_title = t,
    co_order = chapter_get_order x\<rparr>"
  have "chapter_out_of x y"
    by (simp add: chapter_out_of_def y_def st)
  moreover have "chapter_outs (x # xs) = Inr (y # ys)"
    by (simp add: y_def st ys)
  ultimately show ?case
    using ys(2) by simp
qed

lemma bubble_outs_Inr:
  "\<forall>x \<in> set xs. bubble_chapter_id x \<noteq> None \<and> bubble_content_html x \<noteq> None \<Longrightarrow>
   \<exists>ys. bubble_outs xs = Inr ys \<and> list_all2 bubble_out_of xs ys"
proof (induction xs)
  case Nil
  then show ?case by simp
next
  case (Cons x xs)
  then obtain ys where ys: "bubble_outs xs = Inr ys" "list_all2 bubble_out_of xs ys"
    by auto
  from Cons.prems obtain c h where ch: "bubble_chapter_id x = Some c" "bubble_content_html x = Some h"
    by auto
  define y where "y = \<lparr>bo_id = str (bubble_oid x), bo_chapter_id = c, bo_content_html = h,
    bo_order = bubble_get_order x\<rparr>"
  have "bubble_out_of x y"
    by (simp add: bubble_out_of_def y_def ch)
  moreover have "bubble_outs (x # xs) = Inr (y # ys)"
    by (simp add: y_def ch ys)
  ultimately show ?case
    using ys(2) by simp
qed

lemma chapter_out_orders:
  "list_all2 chapter_out_of xs ys \<Longrightarrow> map co_order ys = map chapter_get_order xs"
  by (induction rule: list_all2_induct) (simp_all add: chapter_out_of_def)

lemma bubble_out_orders:
  "list_all2 bubble_out_of xs ys \<Longrightarrow> map bo_order ys = map bubble_get_order xs"
  by (induction rule: list_all2_induct) (simp_all add: bubble_out_of_def)

lemma list_chapters_eq:
  "list_chapters sid d =
     (chapter_outs (sort_key chapter_get_order (fst (get_documents_chapter sid d))),
      log_op (Find ''chapter'') d)"
  by (simp add: list_chapters_def get_documents_chapter_def sorted_by_def)

lemma list_bubbles_eq:
  "list_bubbles cid d =
     (bubble_outs (sort_key bubble_get_order (fst (get_documents_bubble cid d))),
      log_op (Find ''bubble'') d)"
  by (simp add: list_bubbles_def get_documents_bubble_def sorted_by_def)

lemma list_chapters_docs:
  assumes "\<forall>x \<in> set (fst (get_documents_chapter sid d)). chapter_title x \<noteq> None"
  shows "\<exists>ys. fst (list_chapters sid d) = Inr ys \<and>
     list_all2 chapter_out_of (sort_key chapter_get_order (fst (get_documents_chapter sid d))) ys"
proof -
  let ?docs = "sort_key chapter_get_order (fst (get_documents_chapter sid d))"
  have "\<forall>x \<in> set (fst (get_documents_chapter sid d)). chapter_story_id x \<noteq> None"
    by (simp add: get_documents_chapter_def)
  with assms have "\<forall>x \<in> set ?docs. chapter_story_id x \<noteq> None \<and> chapter_title x \<noteq> None"
    by simp
  from chapter_outs_Inr [OF this] show ?thesis
    by (simp add: list_chapters_eq)
qed

lemma list_bubbles_docs:
  assumes "\<forall>x \<in> set (fst (get_documents_bubble cid d)). bubble_content_html x \<noteq> None"
  shows "\<exists>ys. fst (list_bubbles cid d) = Inr ys \<and>
     list_all2 bubble_out_of (sort_key bubble_get_order (fst (get_documents_bubble cid d))) ys"
proof -
  let ?docs = "sort_key bubble_get_order (fst (get_documents_bubble cid d))"
  have "\<forall>x \<in> set (fst (get_documents_bubble cid d)). bubble_chapter_id x \<noteq> None"
    by (simp add: get_documents_bubble_def)
  with assms have "\<forall>x \<in> set ?docs. bubble_chapter_id x \<noteq> None \<and> bubble_content_html x \<noteq> None"
    by simp
  from bubble_outs_Inr [OF this] show ?thesis
    by (simp add: list_bubbles_eq)
qed

lemma ex_titles:
  "\<forall>x \<in> set (fst (get_documents_chapter ex_S1 ex_db)). chapter_title x \<noteq> None"
  "\<forall>x \<in> set (fst (get_documents_bubble ex_C1 ex_db)). bubble_content_html x \<noteq> None"
  by (simp_all add: get_documents_chapter_def get_documents_bubble_def ex_defs)

lemma chapter_out_of_stored:
  assumes "chapter_out_of x y" and "chapter_story_id x = Some sid"
  shows "co_id y = str (chapter_oid x) \<and> co_story_id y = sid \<and>
     chapter_title x = Some (co_title y) \<and>
     co_order y = (case chapter_order x of None \<Rightarrow> 0 | Some n \<Rightarrow> n)"
  using assms by (simp add: chapter_out_of_def chapter_get_order_def)

lemma bubble_out_of_stored:
  assumes "bubble_out_of x y" and "bubble_chapter_id x = Some cid"
  shows "bo_id y = str (bubble_oid x) \<and> bo_chapter_id y = cid \<and>
     bubble_content_html x = Some (bo_content_html y) \<and>
     bo_order y = (case bubble_order x of None \<Rightarrow> 0 | Some n \<Rightarrow> n)"
  using assms by (simp add: bubble_out_of_def bubble_get_order_def)

lemma ex_listings:
  "fst (list_chapters ex_S1 ex_db) = Inr ex_chapter_listing"
  "fst (list_bubbles ex_C1 ex_db) = Inr ex_bubble_listing"
  by (simp_all add: list_chapters_eq list_bubbles_eq get_documents_chapter_def
      get_documents_bubble_def ex_defs ex_chapter_listing_def ex_bubble_listing_def
      chapter_get_order_def bubble_get_order_def)

text \<open>
  C3. Listing the chapters of a story id, when every chapter document found has a title
  (the response class needs one), answers with one response object for each document of
  a list that is a permutation of the stored chapter documents whose \<^verbatim>\<open>story_id\<close> is
  the queried string: each of them once, also those with equal \<^verbatim>\<open>order\<close>. A response
  object carries the id, the \<^verbatim>\<open>story_id\<close>, the title and the stored \<^verbatim>\<open>order\<close> of its
  document, 0 standing for an \<^verbatim>\<open>order\<close> the document lacks, and the \<^verbatim>\<open>order\<close> of the
  responses does not decrease from first to last. The same holds for listing the bubbles
  of a chapter id.
\<close>

theorem listing_sorted_permutation:
  "((\<forall>x \<in> set (fst (get_documents_chapter sid d)). chapter_title x \<noteq> None) \<longrightarrow>
      (\<exists>docs outs. fst (list_chapters sid d) = Inr outs \<and>
         mset docs = mset (filter (\<lambda>x. chapter_story_id x = Some sid) (chapters d)) \<and>
         list_all2
           (\<lambda>x y. co_id y = str (chapter_oid x) \<and> co_story_id y = sid \<and>
              chapter_title x = Some (co_title y) \<and>
              co_order y = (case chapter_order x of None \<Rightarrow> 0 | Some n \<Rightarrow> n))
           docs outs \<and>
         sorted (map co_order outs))) \<and>
   ((\<forall>x \<in> set (fst (get_documents_bubble cid d)). bubble_content_html x \<noteq> None) \<longrightarrow>
      (\<exists>docs outs. fst (list_bubbles cid d) = Inr outs \<and>
         mset docs = mset (filter (\<lambda>x. bubble_chapter_id x = Some cid) (bubbles d)) \<and>
         list_all2
           (\<lambda>x y. bo_id y = str (bubble_oid x) \<and> bo_chapter_id y = cid \<and>
              bubble_content_html x = Some (bo_content_html y) \<and>
              bo_order y = (case bubble_order x of None \<Rightarrow> 0 | Some n \<Rightarrow> n))
           docs outs \<and>
         sorted (map bo_order outs)))"
proof (intro conjI impI)
  let ?docs = "sort_key chapter_get_order (fst (get_documents_chapter sid d))"
  assume "\<forall>x \<in> set (fst (get_documents_chapter sid d)). chapter_title x \<noteq> None"
  from list_chapters_docs [OF this] obtain ys where
    ys: "fst (list_chapters sid d) = Inr ys" "list_all2 chapter_out_of ?docs ys"
    by blast
  have s: "sorted (map co_order ys)"
    by (simp add: chapter_out_orders [OF ys(2)])
  have m: "mset ?docs = mset (filter (\<lambda>x. chapter_story_id x = Some sid) (chapters d))"
    by (simp add: get_documents_chapter_def)
  have p: "\<forall>x \<in> set ?docs. chapter_story_id x = Some sid"
    by (simp add: get_documents_chapter_def)
  from ys(2) have "list_all2
      (\<lambda>x y. co_id y = str (chapter_oid x) \<and> co_story_id y = sid \<and>
         chapter_title x = Some (co_title y) \<and>
         co_order y = (case chapter_order x of None \<Rightarrow> 0 | Some n \<Rightarrow> n)) ?docs ys"
  proof (rule list.rel_mono_strong)
    fix x y
    assume "x \<in> set ?docs" and o: "chapter_out_of x y"
    with p have "chapter_story_id x = Some sid"
      by blast
    with o show "co_id y = str (chapter_oid x) \<and> co_story_id y = sid \<and>
        chapter_title x = Some (co_title y) \<and>
        co_order y = (case chapter_order x of None \<Rightarrow> 0 | Some n \<Rightarrow> n)"
      by (rule chapter_out_of_stored)
  qed
  with ys(1) m s show "\<exists>docs outs. fst (list_chapters sid d) = Inr outs \<and>
      mset docs = mset (filter (\<lambda>x. chapter_story_id x = Some sid) (chapters d)) \<and>
      list_all2
        (\<lambda>x y. co_id y = str (chapter_oid x) \<and> co_story_id y = sid \<and>
           chapter_title x = Some (co_title y) \<and>
           co_order y = (case chapter_order x of None \<Rightarrow> 0 | Some n \<Rightarrow> n))
        docs outs \<and>
      sorted (map co_order outs)"
    by blast
next
  let ?docs = "sort_key bubble_get_order (fst (get_documents_bubble cid d))"
  assume "\<forall>x \<in> set (fst (get_documents_bubble cid d)). bubble_content_html x \<noteq> None"
  from list_bubbles_docs [OF this] obtain ys where
    ys: "fst (list_bubbles cid d) = Inr ys" "list_all2 bubble_out_of ?docs ys"
    by blast
  have s: "sorted (map bo_order ys)"
    by (simp add: bubble_out_orders [OF ys(2)])
  have m: "mset ?docs = mset (filter (\<lambda>x. bubble_chapter_id x = Some cid) (bubbles d))"
    by (simp add: get_documents_bubble_def)
  have p: "\<forall>x \<in> set ?docs. bubble_chapter_id x = Some cid"
    by (simp add: get_documents_bubble_def)
  from ys(2) have "list_all2
      (\<lambda>x y. bo_id y = str (bubble_oid x) \<and> bo_chapter_id y = cid \<and>
         bubble_content_html x = Some (bo_content_html y) \<and>
         bo_order y = (case bubble_order x of None \<Rightarrow> 0 | Some n \<Rightarrow> n)) ?docs ys"
  proof (rule list.rel_mono_strong)
    fix x y
    assume "x \<in> set ?docs" and o: "bubble_out_of x y"
    with p have "bubble_chapter_id x = Some cid"
      by blast
    with o show "bo_id y = str (bubble_oid x) \<and> bo_chapter_id y = cid \<and>
        bubble_content_html x = Some (bo_content_html y) \<and>
        bo_order y = (case bubble_order x of None \<Rightarrow> 0 | Some n \<Rightarrow> n)"
      by (rule bubble_out_of_stored)
  qed
  with ys(1) m s show "\<exists>docs outs. fst (list_bubbles cid d) = Inr outs \<and>
      mset docs = mset (filter (\<lambda>x. bubble_chapter_id x = Some cid) (bubbles d)) \<and>
      list_all2
        (\<lambda>x y. bo_id y = str (bubble_oid x) \<and> bo_chapter_id y = cid \<and>
           bubble_content_html x = Some (bo_content_html y) \<and>
           bo_order y = (case bubble_order x of None \<Rightarrow> 0 | Some n \<Rightarrow> n))
        docs outs \<and>
      sorted (map bo_order outs)"
    by blast
qed

theorem listing_sorted_permutation_witness:
  "None \<notin> chapter_title ` set (fst (get_documents_chapter ex_S1 ex_db)) \<and>
   fst (list_chapters ex_S1 ex_db) = Inr ex_chapter_listing \<and>
   (\<exists>docs. mset docs = mset (filter (\<lambda>x. chapter_story_id x = Some ex_S1) (chapters ex_db)) \<and>
      list_all2
        (\<lambda>x y. co_id y = str (chapter_oid x) \<and> co_story_id y = ex_S1 \<and>
           chapter_title x = Some (co_title y) \<and>
           co_order y = (case chapter_order x of None \<Rightarrow> 0 | Some n \<Rightarrow> n))
        docs ex_chapter_listing) \<and>
   sorted (map co_order ex_chapter_listing) \<and>
   None \<notin> bubble_content_html ` set (fst (get_documents_bubble ex_C1 ex_db)) \<and>
   fst (list_bubbles ex_C1 ex_db) = Inr ex_bubble_listing \<and>
   (\<exists>docs. mset docs = mset (filter (\<lambda>x. bubble_chapter_id x = Some ex_C1) (bubbles ex_db)) \<and>
      list_all2
        (\<lambda>x y. bo_id y = str (bubble_oid x) \<and> bo_chapter_id y = ex_C1 \<and>
           bubble_content_html x = Some (bo_content_html y) \<and>
           bo_order y = (case bubble_order x of None \<Rightarrow> 0 | Some n \<Rightarrow> n))
        docs ex_bubble_listing) \<and>
   sorted (map bo_order ex_bubble_listing)"
proof -
  have c: "None \<notin> chapter_title ` set (fst (get_documents_chapter ex_S1 ex_db))"
    using ex_titles(1) by force
  have b: "None \<notin> bubble_content_html ` set (fst (get_documents_bubble ex_C1 ex_db))"
    using ex_titles(2) by force
  from listing_sorted_permutation [of ex_S1 ex_db ex_C1] ex_titles c b show ?thesis
    unfolding ex_listings by simp blast
qed

text \<open>
  C6. Listing with a parent id that no child document carries, whatever the id is and
  whether or not a parent has it, answers with the empty list; the one call on the store
  is the query on the child collection, so the parent collection is never consulted.
\<close>

theorem listing_no_children:
  "((\<forall>x \<in> set (chapters d). chapter_story_id x \<noteq> Some sid) \<longrightarrow>
      list_chapters sid d = (Inr [], log_op (Find ''chapter'') d)) \<and>
   ((\<forall>x \<in> set (bubbles d). bubble_chapter_id x \<noteq> Some cid) \<longrightarrow>
      list_bubbles cid d = (Inr [], log_op (Find ''bubble'') d))"
  by (simp add: list_chapters_eq list_bubbles_eq get_documents_chapter_def
      get_documents_bubble_def)

theorem listing_no_children_witness:
  "\<not> is_valid ''not-an-id'' \<and>
   Some ''not-an-id'' \<notin> chapter_story_id ` set (chapters ex_db) \<and>
   list_chapters ''not-an-id'' ex_db = (Inr [], log_op (Find ''chapter'') ex_db) \<and>
   is_valid ex_S2 \<and> ObjectId ex_S2 \<notin> chapter_oid ` set (chapters ex_db) \<and>
   Some ex_S2 \<notin> bubble_chapter_id ` set (bubbles ex_db) \<and>
   list_bubbles ex_S2 ex_db = (Inr [], log_op (Find ''bubble'') ex_db)"
proof -
  have c: "\<forall>x \<in> set (chapters ex_db). chapter_story_id x \<noteq> Some ''not-an-id''"
    by (simp add: ex_defs)
  have b: "\<forall>x \<in> set (bubbles ex_db). bubble_chapter_id x \<noteq> Some ex_S2"
    by (simp add: ex_defs)
  have "Some ''not-an-id'' \<notin> chapter_story_id ` set (chapters ex_db)"
    using c by force
  moreover have "Some ex_S2 \<notin> bubble_chapter_id ` set (bubbles ex_db)"
    using b by force
  ultimately show ?thesis
    using listing_no_children [of ex_db "''not-an-id''" ex_S2] c b ex_is_valid ex_parents
    by simp
qed

text \<open>
  C9. The sort of the listing handlers is stable: for every order value, the documents
  behind the response that have this value are the documents of the sequence the store
  returned that have it, in the same relative order.
\<close>

theorem listing_sort_stable:
  "((\<forall>x \<in> set (fst (get_documents_chapter sid d)). chapter_title x \<noteq> None) \<longrightarrow>
      (\<exists>docs outs. fst (list_chapters sid d) = Inr outs \<and> list_all2 chapter_out_of docs outs \<and>
         (\<forall>k. filter (\<lambda>x. chapter_get_order x = k) docs =
              filter (\<lambda>x. chapter_get_order x = k) (fst (get_documents_chapter sid d))))) \<and>
   ((\<forall>x \<in> set (fst (get_documents_bubble cid d)). bubble_content_html x \<noteq> None) \<longrightarrow>
      (\<exists>docs outs. fst (list_bubbles cid d) = Inr outs \<and> list_all2 bubble_out_of docs outs \<and>
         (\<forall>k. filter (\<lambda>x. bubble_get_order x = k) docs =
              filter (\<lambda>x. bubble_get_order x = k) (fst (get_documents_bubble cid d)))))"
proof (intro conjI impI)
  let ?docs = "sort_key chapter_get_order (fst (get_documents_chapter sid d))"
  assume "\<forall>x \<in> set (fst (get_documents_chapter sid d)). chapter_title x \<noteq> None"
  from list_chapters_docs [OF this] obtain ys where
    ys: "fst (list_chapters sid d) = Inr ys" "list_all2 chapter_out_of ?docs ys"
    by blast
  have "\<forall>k. filter (\<lambda>x. chapter_get_order x = k) ?docs =
      filter (\<lambda>x. chapter_get_order x = k) (fst (get_documents_chapter sid d))"
    by (simp add: sort_key_stable)
  with ys show "\<exists>docs outs. fst (list_chapters sid d) = Inr outs \<and>
      list_all2 chapter_out_of docs outs \<and>
      (\<forall>k. filter (\<lambda>x. chapter_get_order x = k) docs =
           filter (\<lambda>x. chapter_get_order x = k) (fst (get_documents_chapter sid d)))"
    by blast
next
  let ?docs = "sort_key bubble_get_order (fst (get_documents_bubble cid d))"
  assume "\<forall>x \<in> set (fst (get_documents_bubble cid d)). bubble_content_html x \<noteq> None"
  from list_bubbles_docs [OF this] obtain ys where
    ys: "fst (list_bubbles cid d) = Inr ys" "list_all2 bubble_out_of ?docs ys"
    by blast
  have "\<forall>k. filter (\<lambda>x. bubble_get_order x = k) ?docs =
      filter (\<lambda>x. bubble_get_order x = k) (fst (get_documents_bubble cid d))"
    by (simp add: sort_key_stable)
  with ys show "\<exists>docs outs. fst (list_bubbles cid d) = Inr outs \<and>
      list_all2 bubble_out_of docs outs \<and>
      (\<forall>k. filter (\<lambda>x. bubble_get_order x = k) docs =
           filter (\<lambda>x. bubble_get_order x = k) (fst (get_documents_bubble cid d)))"
    by blast
qed

theorem listing_sort_stable_witness:
  "None \<notin> chapter_title ` set (fst (get_documents_chapter ex_S1 ex_db)) \<and>
   (\<exists>docs outs. fst (list_chapters ex_S1 ex_db) = Inr outs \<and>
      list_all2 chapter_out_of docs outs \<and>
      (\<forall>k. filter (\<lambda>x. chapter_get_order x = k) docs =
           filter (\<lambda>x. chapter_get_order x = k) (fst (get_documents_chapter ex_S1 ex_db)))) \<and>
   None \<notin> bubble_content_html ` set (fst (get_documents_bubble ex_C1 ex_db)) \<and>
   (\<exists>docs outs. fst (list_bubbles ex_C1 ex_db) = Inr outs \<and>
      list_all2 bubble_out_of docs outs \<and>
      (\<forall>k. filter (\<lambda>x. bubble_get_order x = k) docs =
           filter (\<lambda>x. bubble_get_order x = k) (fst (get_documents_bubble ex_C1 ex_db))))"
proof -
  have "None \<notin> chapter_title ` set (fst (get_documents_chapter ex_S1 ex_db))"
    using ex_titles(1) by force
  moreover have "None \<notin> bubble_content_html ` set (fst (get_documents_bubble ex_C1 ex_db))"
    using ex_titles(2) by force
  ultimately show ?thesis
    using listing_sort_stable [of ex_S1 ex_db ex_C1] ex_titles by blast
qed

section \<open>The story detail\<close>

lemma chapter_list_eq:
  "chapter_list chs d =
     (map (\<lambda>ch. \<lparr>ce_id = str (chapter_oid ch), ce_title = chapter_title ch,
                  ce_order = chapter_get_order ch,
                  ce_bubbles = map bubble_entry_of
                    (sort_key bubble_order
                       (filter (\<lambda>b. bubble_chapter_id b = Some (str (chapter_oid ch)))
                          (bubbles d)))\<rparr>) chs,
      d\<lparr>oplog := oplog d @ replicate (length chs) (Find ''bubble'')\<rparr>)"
proof (induction chs arbitrary: d)
  case Nil
  then show ?case by simp
next
  case (Cons ch chs)
  show ?case
    by (simp add: Cons.IH find_bubble_sort_def log_op_def replicate_append_same)
qed

lemma get_story_detail_found:
  assumes "is_valid sid"
    and "List.find (\<lambda>s. story_oid s = ObjectId sid) (stories d) = Some s"
  shows "fst (get_story_detail sid d) =
     Inr \<lparr>sd_id = str (story_oid s), sd_title = story_title s,
           sd_author = story_author s, sd_cover_image = story_cover_image s,
           sd_description = story_description s,
           sd_chapters =
             map (\<lambda>ch. \<lparr>ce_id = str (chapter_oid ch), ce_title = chapter_title ch,
                    ce_order = chapter_get_order ch,
                    ce_bubbles = map bubble_entry_of
                      (sort_key bubble_order
                         (filter (\<lambda>b. bubble_chapter_id b = Some (str (chapter_oid ch)))
                            (bubbles d)))\<rparr>)
               (sort_key chapter_order
                  (filter (\<lambda>c. chapter_story_id c = Some sid) (chapters d)))\<rparr>"
  using assms
  by (simp add: get_story_detail_def find_one_story_def find_chapter_sort_def
      chapter_list_eq log_op_def)

lemma get_story_detail_Inr:
  assumes "fst (get_story_detail sid d) = Inr r"
  shows "sd_chapters r =
     map (\<lambda>ch. \<lparr>ce_id = str (chapter_oid ch), ce_title = chapter_title ch,
            ce_order = chapter_get_order ch,
            ce_bubbles = map bubble_entry_of
              (sort_key bubble_order
                 (filter (\<lambda>b. bubble_chapter_id b = Some (str (chapter_oid ch)))
                    (bubbles d)))\<rparr>)
       (sort_key chapter_order (filter (\<lambda>c. chapter_story_id c = Some sid) (chapters d)))"
proof -
  have v: "is_valid sid"
  proof (rule ccontr)
    assume "\<not> is_valid sid"
    with assms show False by (simp add: get_story_detail_def)
  qed
  obtain s where s: "List.find (\<lambda>s. story_oid s = ObjectId sid) (stories d) = Some s"
  proof (cases "List.find (\<lambda>s. story_oid s = ObjectId sid) (stories d)")
    case None
    with assms v have False
      by (simp add: get_story_detail_def find_one_story_def)
    then show ?thesis ..
  next
    case (Some s)
    then show ?thesis by (rule that)
  qed
  from get_story_detail_found [OF v s] assms show ?thesis
    by auto
qed

text \<open>The response the example store gives for its story.\<close>

lemma ex_get_story_detail: "fst (get_story_detail ex_S1 ex_db) = Inr ex_detail"
proof -
  have f: "List.find (\<lambda>s. story_oid s = ObjectId ex_S1) (stories ex_db) = Some ex_s1"
    by (simp add: ex_ObjectId) (simp add: ex_db_def ex_s1_def)
  show ?thesis
    unfolding get_story_detail_found [OF ex_is_valid(1) f]
    by (simp add: ex_defs ex_detail_def bubble_entry_of_def chapter_get_order_def
        bubble_get_order_def)
qed

text \<open>
  C4. In a successful story detail, the chapter entries are those of a list of chapter
  documents that is a permutation of the stored chapters carrying the requested story id.
  The bubble entries of each chapter entry are those of a list of bubble documents, each
  entry with the id and the content of its document, and that list is a permutation of
  the stored bubbles whose \<^verbatim>\<open>chapter_id\<close> is this chapter's id string: every such bubble
  is there once, and no bubble of another chapter is, whatever the order values are.
\<close>

theorem story_detail_nesting:
  assumes "fst (get_story_detail sid d) = Inr r"
  shows "\<exists>chs. mset chs = mset (filter (\<lambda>c. chapter_story_id c = Some sid) (chapters d)) \<and>
     list_all2
       (\<lambda>c e. ce_id e = str (chapter_oid c) \<and>
          (\<exists>bs. mset bs =
               mset (filter (\<lambda>b. bubble_chapter_id b = Some (str (chapter_oid c))) (bubbles d)) \<and>
             list_all2
               (\<lambda>b be. be_id be = str (bubble_oid b) \<and>
                  be_content_html be = bubble_content_html b \<and>
                  bubble_chapter_id b = Some (ce_id e))
               bs (ce_bubbles e)))
       chs (sd_chapters r)"
proof -
  let ?chs = "sort_key chapter_order (filter (\<lambda>c. chapter_story_id c = Some sid) (chapters d))"
  have m: "mset ?chs = mset (filter (\<lambda>c. chapter_story_id c = Some sid) (chapters d))"
    by simp
  have "list_all2
       (\<lambda>c e. ce_id e = str (chapter_oid c) \<and>
          (\<exists>bs. mset bs =
               mset (filter (\<lambda>b. bubble_chapter_id b = Some (str (chapter_oid c))) (bubbles d)) \<and>
             list_all2
               (\<lambda>b be. be_id be = str (bubble_oid b) \<and>
                  be_content_html be = bubble_content_html b \<and>
                  bubble_chapter_id b = Some (ce_id e))
               bs (ce_bubbles e)))
       ?chs (sd_chapters r)"
    unfolding get_story_detail_Inr [OF assms] list_all2_map2
  proof (rule list_all2_refl, intro conjI)
    fix c :: chapter_doc
    let ?bs = "sort_key bubble_order
      (filter (\<lambda>b. bubble_chapter_id b = Some (str (chapter_oid c))) (bubbles d))"
    let ?e = "\<lparr>ce_id = str (chapter_oid c), ce_title = chapter_title c,
      ce_order = chapter_get_order c, ce_bubbles = map bubble_entry_of ?bs\<rparr>"
    show "ce_id ?e = str (chapter_oid c)"
      by simp
    have "\<forall>b \<in> set ?bs. bubble_chapter_id b = Some (str (chapter_oid c))"
      by simp
    then have "list_all2
        (\<lambda>b be. be_id be = str (bubble_oid b) \<and>
           be_content_html be = bubble_content_html b \<and>
           bubble_chapter_id b = Some (str (chapter_oid c)))
        ?bs (map bubble_entry_of ?bs)"
      unfolding list_all2_map2 list_all2_same
      by (simp add: bubble_entry_of_def)
    then have "mset ?bs =
          mset (filter (\<lambda>b. bubble_chapter_id b = Some (str (chapter_oid c))) (bubbles d)) \<and>
        list_all2
          (\<lambda>b be. be_id be = str (bubble_oid b) \<and>
             be_content_html be = bubble_content_html b \<and>
             bubble_chapter_id b = Some (ce_id ?e))
          ?bs (ce_bubbles ?e)"
      by simp
    then show "\<exists>bs. mset bs =
          mset (filter (\<lambda>b. bubble_chapter_id b = Some (str (chapter_oid c))) (bubbles d)) \<and>
        list_all2
          (\<lambda>b be. be_id be = str (bubble_oid b) \<and>
             be_content_html be = bubble_content_html b \<and>
             bubble_chapter_id b = Some (ce_id ?e))
          bs (ce_bubbles ?e)"
      by (rule exI)
  qed
  with m show ?thesis
    by (intro exI [of _ ?chs] conjI)
qed

theorem story_detail_nesting_witness:
  "fst (get_story_detail ex_S1 ex_db) = Inr ex_detail \<and>
   (\<exists>chs. mset chs = mset (filter (\<lambda>c. chapter_story_id c = Some ex_S1) (chapters ex_db)) \<and>
     list_all2
       (\<lambda>c e. ce_id e = str (chapter_oid c) \<and>
          (\<exists>bs. mset bs =
               mset (filter (\<lambda>b. bubble_chapter_id b = Some (str (chapter_oid c)))
                  (bubbles ex_db)) \<and>
             list_all2
               (\<lambda>b be. be_id be = str (bubble_oid b) \<and>
                  be_content_html be = bubble_content_html b \<and>
                  bubble_chapter_id b = Some (ce_id e))
               bs (ce_bubbles e)))
       chs (sd_chapters ex_detail))"
  using story_detail_nesting [OF ex_get_story_detail] ex_get_story_detail
  by (intro conjI)

text \<open>
  C5. For a story document of the store (identifiers being unique in a collection) whose
  id the request spells, and with no chapter document carrying the requested id, the
  detail succeeds with the fields of that story and the empty chapter list.
\<close>

theorem story_without_chapters:
  assumes "is_valid sid"
    and "s \<in> set (stories d)"
    and "story_oid s = ObjectId sid"
    and "distinct (map story_oid (stories d))"
    and "\<forall>c \<in> set (chapters d). chapter_story_id c \<noteq> Some sid"
  shows "fst (get_story_detail sid d) =
     Inr \<lparr>sd_id = str (story_oid s), sd_title = story_title s,
           sd_author = story_author s, sd_cover_image = story_cover_image s,
           sd_description = story_description s, sd_chapters = []\<rparr>"
proof -
  obtain s' where f: "List.find (\<lambda>x. story_oid x = ObjectId sid) (stories d) = Some s'"
    using assms(2,3) by (cases "List.find (\<lambda>x. story_oid x = ObjectId sid) (stories d)")
      (auto simp: find_None_iff)
  then have "s' \<in> set (stories d)" "story_oid s' = story_oid s"
    using assms(3) by (auto simp: find_Some_iff)
  with assms(2,4) have "s' = s"
    by (simp add: inj_on_eq_iff [OF iffD1 [OF distinct_map, THEN conjunct2]])
  moreover have "filter (\<lambda>c. chapter_story_id c = Some sid) (chapters d) = []"
    using assms(5) by (simp add: filter_empty_conv)
  ultimately show ?thesis
    using get_story_detail_found [OF assms(1) f] by simp
qed

theorem story_without_chapters_witness:
  "is_valid ex_S1 \<and> ex_s1 \<in> set (stories ex_db2) \<and> story_oid ex_s1 = ObjectId ex_S1 \<and>
   distinct (map story_oid (stories ex_db2)) \<and>
   Some ex_S1 \<notin> chapter_story_id ` set (chapters ex_db2) \<and>
   fst (get_story_detail ex_S1 ex_db2) =
     Inr \<lparr>sd_id = ex_S1, sd_title = Some ''A'', sd_author = None, sd_cover_image = None,
           sd_description = None, sd_chapters = []\<rparr>"
proof -
  have h: "ex_s1 \<in> set (stories ex_db2)" "story_oid ex_s1 = ObjectId ex_S1"
    "distinct (map story_oid (stories ex_db2))"
    "\<forall>c \<in> set (chapters ex_db2). chapter_story_id c \<noteq> Some ex_S1"
    by (simp_all add: ex_ObjectId) (simp_all add: ex_db2_def ex_s1_def ex_c4_def ex_S1_def ex_S2_def)
  have "Some ex_S1 \<notin> chapter_story_id ` set (chapters ex_db2)"
    using h(4) by force
  then show ?thesis
    using story_without_chapters [OF ex_is_valid(1) h] h ex_is_valid(1)
    by (simp add: ex_s1_def)
qed

section \<open>Documents without an order\<close>

lemma insort_key_map:
  "insort_key f (g x) (map g xs) = map g (insort_key (\<lambda>y. f (g y)) x xs)"
  by (induction xs) simp_all

lemma sort_key_map: "sort_key f (map g xs) = map g (sort_key (\<lambda>y. f (g y)) xs)"
  by (induction xs) (simp_all add: insort_key_map)

lemma fill_order_fields:
  "chapter_get_order (chapter_fill_order x) = chapter_get_order x"
  "chapter_story_id (chapter_fill_order x) = chapter_story_id x"
  "chapter_title (chapter_fill_order x) = chapter_title x"
  "chapter_oid (chapter_fill_order x) = chapter_oid x"
  "bubble_get_order (bubble_fill_order y) = bubble_get_order y"
  "bubble_chapter_id (bubble_fill_order y) = bubble_chapter_id y"
  "bubble_content_html (bubble_fill_order y) = bubble_content_html y"
  "bubble_oid (bubble_fill_order y) = bubble_oid y"
  by (simp_all add: chapter_fill_order_def chapter_get_order_def bubble_fill_order_def
      bubble_get_order_def split: option.splits)

lemma chapter_outs_fill: "chapter_outs (map chapter_fill_order xs) = chapter_outs xs"
  by (induction xs) (simp_all add: fill_order_fields split: sum.splits)

lemma bubble_outs_fill: "bubble_outs (map bubble_fill_order xs) = bubble_outs xs"
  by (induction xs) (simp_all add: fill_order_fields split: sum.splits)

lemma list_chapters_fill: "fst (list_chapters sid (fill_orders d)) = fst (list_chapters sid d)"
proof -
  have "fst (get_documents_chapter sid (fill_orders d)) =
      map chapter_fill_order (fst (get_documents_chapter sid d))"
    by (simp add: get_documents_chapter_def fill_orders_def filter_map comp_def
        fill_order_fields)
  then show ?thesis
    by (simp add: list_chapters_eq sort_key_map fill_order_fields chapter_outs_fill)
qed

lemma list_bubbles_fill: "fst (list_bubbles cid (fill_orders d)) = fst (list_bubbles cid d)"
proof -
  have "fst (get_documents_bubble cid (fill_orders d)) =
      map bubble_fill_order (fst (get_documents_bubble cid d))"
    by (simp add: get_documents_bubble_def fill_orders_def filter_map comp_def
        fill_order_fields)
  then show ?thesis
    by (simp add: list_bubbles_eq sort_key_map fill_order_fields bubble_outs_fill)
qed

lemma chapter_outs_order:
  "chapter_outs xs = Inr ys \<Longrightarrow>
   list_all2 (\<lambda>x y. co_id y = str (chapter_oid x) \<and> co_order y = chapter_get_order x) xs ys"
proof (induction xs arbitrary: ys)
  case Nil
  then show ?case by simp
next
  case (Cons x xs)
  from Cons.prems obtain s t where st: "chapter_story_id x = Some s" "chapter_title x = Some t"
    by (cases "chapter_story_id x"; cases "chapter_title x") simp_all
  from Cons.prems st obtain zs where zs: "chapter_outs xs = Inr zs"
    by (cases "chapter_outs xs") simp_all
  from Cons.prems st zs have "ys =
      \<lparr>co_id = str (chapter_oid x), co_story_id = s, co_title = t,
       co_order = chapter_get_order x\<rparr> # zs"
    by simp
  with Cons.IH [OF zs] show ?case
    by simp
qed

lemma bubble_outs_order:
  "bubble_outs xs = Inr ys \<Longrightarrow>
   list_all2 (\<lambda>x y. bo_id y = str (bubble_oid x) \<and> bo_order y = bubble_get_order x) xs ys"
proof (induction xs arbitrary: ys)
  case Nil
  then show ?case by simp
next
  case (Cons x xs)
  from Cons.prems obtain c h where ch:
    "bubble_chapter_id x = Some c" "bubble_content_html x = Some h"
    by (cases "bubble_chapter_id x"; cases "bubble_content_html x") simp_all
  from Cons.prems ch obtain zs where zs: "bubble_outs xs = Inr zs"
    by (cases "bubble_outs xs") simp_all
  from Cons.prems ch zs have "ys =
      \<lparr>bo_id = str (bubble_oid x), bo_chapter_id = c, bo_content_html = h,
       bo_order = bubble_get_order x\<rparr> # zs"
    by simp
  with Cons.IH [OF zs] show ?case
    by simp
qed

lemma get_order_None:
  "chapter_order c = None \<Longrightarrow> chapter_get_order c = 0"
  "bubble_order b = None \<Longrightarrow> bubble_get_order b = 0"
  by (simp_all add: chapter_get_order_def bubble_get_order_def)

text \<open>
  C10. A chapter or bubble document without an \<^verbatim>\<open>order\<close> field is read as one with
  order 0. Giving the order 0 to the documents of the store that lack the field changes
  no listing response, so such a document is sorted and written out by the listings as
  one of order 0; every object of a listing response built from such a document has order
  0; and in a story detail every chapter entry and every bubble entry built from such a
  document has order 0.
\<close>

theorem missing_order_reads_as_zero:
  "fst (list_chapters sid (fill_orders d)) = fst (list_chapters sid d) \<and>
   fst (list_bubbles cid (fill_orders d)) = fst (list_bubbles cid d) \<and>
   (fst (list_chapters sid d) = Inr couts \<longrightarrow>
      (\<exists>docs. mset docs = mset (filter (\<lambda>x. chapter_story_id x = Some sid) (chapters d)) \<and>
         list_all2 (\<lambda>x y. co_id y = str (chapter_oid x) \<and>
                      (chapter_order x = None \<longrightarrow> co_order y = 0)) docs couts)) \<and>
   (fst (list_bubbles cid d) = Inr bouts \<longrightarrow>
      (\<exists>docs. mset docs = mset (filter (\<lambda>x. bubble_chapter_id x = Some cid) (bubbles d)) \<and>
         list_all2 (\<lambda>x y. bo_id y = str (bubble_oid x) \<and>
                      (bubble_order x = None \<longrightarrow> bo_order y = 0)) docs bouts)) \<and>
   (fst (get_story_detail sid d) = Inr r \<longrightarrow>
      (\<exists>chs. mset chs = mset (filter (\<lambda>x. chapter_story_id x = Some sid) (chapters d)) \<and>
         list_all2
           (\<lambda>x e. ce_id e = str (chapter_oid x) \<and>
              (chapter_order x = None \<longrightarrow> ce_order e = 0) \<and>
              (\<exists>bs. mset bs =
                   mset (filter (\<lambda>y. bubble_chapter_id y = Some (ce_id e)) (bubbles d)) \<and>
                 list_all2 (\<lambda>y be. be_id be = str (bubble_oid y) \<and>
                              (bubble_order y = None \<longrightarrow> be_order be = 0))
                   bs (ce_bubbles e)))
           chs (sd_chapters r)))"
proof (intro conjI impI)
  show "fst (list_chapters sid (fill_orders d)) = fst (list_chapters sid d)"
    by (rule list_chapters_fill)
next
  show "fst (list_bubbles cid (fill_orders d)) = fst (list_bubbles cid d)"
    by (rule list_bubbles_fill)
next
  let ?docs = "sort_key chapter_get_order (fst (get_documents_chapter sid d))"
  assume "fst (list_chapters sid d) = Inr couts"
  then have "chapter_outs ?docs = Inr couts"
    by (simp add: list_chapters_eq)
  from chapter_outs_order [OF this]
  have "list_all2 (\<lambda>x y. co_id y = str (chapter_oid x) \<and>
      (chapter_order x = None \<longrightarrow> co_order y = 0)) ?docs couts"
    by (rule list_all2_mono) (simp add: get_order_None)
  moreover have "mset ?docs = mset (filter (\<lambda>x. chapter_story_id x = Some sid) (chapters d))"
    by (simp add: get_documents_chapter_def)
  ultimately show "\<exists>docs.
      mset docs = mset (filter (\<lambda>x. chapter_story_id x = Some sid) (chapters d)) \<and>
      list_all2 (\<lambda>x y. co_id y = str (chapter_oid x) \<and>
                   (chapter_order x = None \<longrightarrow> co_order y = 0)) docs couts"
    by blast
next
  let ?docs = "sort_key bubble_get_order (fst (get_documents_bubble cid d))"
  assume "fst (list_bubbles cid d) = Inr bouts"
  then have "bubble_outs ?docs = Inr bouts"
    by (simp add: list_bubbles_eq)
  from bubble_outs_order [OF this]
  have "list_all2 (\<lambda>x y. bo_id y = str (bubble_oid x) \<and>
      (bubble_order x = None \<longrightarrow> bo_order y = 0)) ?docs bouts"
    by (rule list_all2_mono) (simp add: get_order_None)
  moreover have "mset ?docs = mset (filter (\<lambda>x. bubble_chapter_id x = Some cid) (bubbles d))"
    by (simp add: get_documents_bubble_def)
  ultimately show "\<exists>docs.
      mset docs = mset (filter (\<lambda>x. bubble_chapter_id x = Some cid) (bubbles d)) \<and>
      list_all2 (\<lambda>x y. bo_id y = str (bubble_oid x) \<and>
                   (bubble_order x = None \<longrightarrow> bo_order y = 0)) docs bouts"
    by blast
next
  let ?chs = "sort_key chapter_order (filter (\<lambda>x. chapter_story_id x = Some sid) (chapters d))"
  assume r: "fst (get_story_detail sid d) = Inr r"
  have m: "mset ?chs = mset (filter (\<lambda>x. chapter_story_id x = Some sid) (chapters d))"
    by simp
  have "list_all2
       (\<lambda>x e. ce_id e = str (chapter_oid x) \<and>
          (chapter_order x = None \<longrightarrow> ce_order e = 0) \<and>
          (\<exists>bs. mset bs =
               mset (filter (\<lambda>y. bubble_chapter_id y = Some (ce_id e)) (bubbles d)) \<and>
             list_all2 (\<lambda>y be. be_id be = str (bubble_oid y) \<and>
                          (bubble_order y = None \<longrightarrow> be_order be = 0))
               bs (ce_bubbles e)))
       ?chs (sd_chapters r)"
    unfolding get_story_detail_Inr [OF r] list_all2_map2
  proof (rule list_all2_refl, intro conjI impI)
    fix x :: chapter_doc
    let ?bs = "sort_key bubble_order
      (filter (\<lambda>y. bubble_chapter_id y = Some (str (chapter_oid x))) (bubbles d))"
    let ?e = "\<lparr>ce_id = str (chapter_oid x), ce_title = chapter_title x,
      ce_order = chapter_get_order x, ce_bubbles = map bubble_entry_of ?bs\<rparr>"
    show "ce_id ?e = str (chapter_oid x)"
      by simp
    show "ce_order ?e = 0" if "chapter_order x = None"
      using that by (simp add: get_order_None)
    have "list_all2 (\<lambda>y be. be_id be = str (bubble_oid y) \<and>
        (bubble_order y = None \<longrightarrow> be_order be = 0)) ?bs (map bubble_entry_of ?bs)"
      unfolding list_all2_map2
      by (rule list_all2_refl) (simp add: bubble_entry_of_def get_order_None)
    then have "mset ?bs =
          mset (filter (\<lambda>y. bubble_chapter_id y = Some (ce_id ?e)) (bubbles d)) \<and>
        list_all2 (\<lambda>y be. be_id be = str (bubble_oid y) \<and>
          (bubble_order y = None \<longrightarrow> be_order be = 0)) ?bs (ce_bubbles ?e)"
      by simp
    then show "\<exists>bs. mset bs =
          mset (filter (\<lambda>y. bubble_chapter_id y = Some (ce_id ?e)) (bubbles d)) \<and>
        list_all2 (\<lambda>y be. be_id be = str (bubble_oid y) \<and>
          (bubble_order y = None \<longrightarrow> be_order be = 0)) bs (ce_bubbles ?e)"
      by (rule exI)
  qed
  with m show "\<exists>chs.
      mset chs = mset (filter (\<lambda>x. chapter_story_id x = Some sid) (chapters d)) \<and>
      list_all2
        (\<lambda>x e. ce_id e = str (chapter_oid x) \<and>
           (chapter_order x = None \<longrightarrow> ce_order e = 0) \<and>
           (\<exists>bs. mset bs =
                mset (filter (\<lambda>y. bubble_chapter_id y = Some (ce_id e)) (bubbles d)) \<and>
              list_all2 (\<lambda>y be. be_id be = str (bubble_oid y) \<and>
                           (bubble_order y = None \<longrightarrow> be_order be = 0))
                bs (ce_bubbles e)))
        chs (sd_chapters r)"
    by (intro exI [of _ ?chs] conjI)
qed

lemma ex_fill_orders:
  "chapters (fill_orders ex_db) = [ex_c1, ex_c2, ex_c3\<lparr>chapter_order := Some 0\<rparr>, ex_c4]"
  "bubbles (fill_orders ex_db) = [ex_b1, ex_b2, ex_b3\<lparr>bubble_order := Some 0\<rparr>]"
  by (simp_all add: fill_orders_def chapter_fill_order_def bubble_fill_order_def ex_db_def
      ex_c1_def ex_c2_def ex_c3_def ex_c4_def ex_b1_def ex_b2_def ex_b3_def)

theorem missing_order_reads_as_zero_witness:
  "chapters (fill_orders ex_db) = [ex_c1, ex_c2, ex_c3\<lparr>chapter_order := Some 0\<rparr>, ex_c4] \<and>
   bubbles (fill_orders ex_db) = [ex_b1, ex_b2, ex_b3\<lparr>bubble_order := Some 0\<rparr>] \<and>
   chapter_order ex_c3 = None \<and> bubble_order ex_b3 = None \<and>
   fst (list_chapters ex_S1 (fill_orders ex_db)) = Inr ex_chapter_listing \<and>
   fst (list_bubbles ex_C1 (fill_orders ex_db)) = Inr ex_bubble_listing \<and>
   fst (list_chapters ex_S1 ex_db) = Inr ex_chapter_listing \<and>
   (\<exists>docs. mset docs = mset (filter (\<lambda>x. chapter_story_id x = Some ex_S1) (chapters ex_db)) \<and>
      list_all2 (\<lambda>x y. co_id y = str (chapter_oid x) \<and>
                   (chapter_order x = None \<longrightarrow> co_order y = 0)) docs ex_chapter_listing) \<and>
   fst (list_bubbles ex_C1 ex_db) = Inr ex_bubble_listing \<and>
   (\<exists>docs. mset docs = mset (filter (\<lambda>x. bubble_chapter_id x = Some ex_C1) (bubbles ex_db)) \<and>
      list_all2 (\<lambda>x y. bo_id y = str (bubble_oid x) \<and>
                   (bubble_order x = None \<longrightarrow> bo_order y = 0)) docs ex_bubble_listing) \<and>
   fst (get_story_detail ex_S1 ex_db) = Inr ex_detail \<and>
   (\<exists>chs. mset chs = mset (filter (\<lambda>x. chapter_story_id x = Some ex_S1) (chapters ex_db)) \<and>
      list_all2
        (\<lambda>x e. ce_id e = str (chapter_oid x) \<and>
           (chapter_order x = None \<longrightarrow> ce_order e = 0) \<and>
           (\<exists>bs. mset bs =
                mset (filter (\<lambda>y. bubble_chapter_id y = Some (ce_id e)) (bubbles ex_db)) \<and>
              list_all2 (\<lambda>y be. be_id be = str (bubble_oid y) \<and>
                           (bubble_order y = None \<longrightarrow> be_order be = 0))
                bs (ce_bubbles e)))
        chs (sd_chapters ex_detail))"
proof -
  have n: "chapter_order ex_c3 = None" "bubble_order ex_b3 = None"
    by (simp_all add: ex_c3_def ex_b3_def)
  note t = missing_order_reads_as_zero
    [where sid = ex_S1 and d = ex_db and cid = ex_C1
      and couts = ex_chapter_listing and bouts = ex_bubble_listing and r = ex_detail]
  note t1 = conjunct1 [OF t]
  note t2 = conjunct1 [OF conjunct2 [OF t]]
  note t3 = mp [OF conjunct1 [OF conjunct2 [OF conjunct2 [OF t]]] ex_listings(1)]
  note t4 = mp [OF conjunct1 [OF conjunct2 [OF conjunct2 [OF conjunct2 [OF t]]]] ex_listings(2)]
  note t5 = mp [OF conjunct2 [OF conjunct2 [OF conjunct2 [OF conjunct2 [OF t]]]]
    ex_get_story_detail]
  from ex_fill_orders n t1 t2 ex_listings t3 t4 ex_get_story_detail t5 show ?thesis
    unfolding ex_listings by (intro conjI)
qed

section \<open>Validation of the create requests\<close>

lemma required_str_Inl:
  "\<forall>t. j \<noteq> Some (JStr t) \<Longrightarrow> required_str j = Inl RequestValidationError"
  by (cases j rule: required_str.cases) simp_all

lemma post_stories_rejected:
  "\<forall>t. body ''title'' \<noteq> Some (JStr t) \<Longrightarrow>
   post_stories body d = (Inl RequestValidationError, d)"
  by (simp add: post_stories_def StoryCreate_validate_def required_str_Inl)

lemma post_stories_accepted:
  assumes "body ''title'' = Some (JStr t)"
    and "optional_str (body ''author'') = Inr a"
    and "optional_str (body ''cover_image'') = Inr c"
    and "optional_str (body ''description'') = Inr ds"
  shows "post_stories body d =
     (Inr (str (new_oid d)),
      log_op (InsertOne ''story'')
        (d\<lparr>stories := stories d @
              [\<lparr>story_oid = new_oid d, story_title = Some t, story_author = a,
                story_cover_image = c, story_description = ds\<rparr>],
           next_oid := Suc (next_oid d)\<rparr>))"
  using assms
  by (simp add: post_stories_def StoryCreate_validate_def create_story_def StorySchema_def
      create_document_story_def Let_def)

lemma hex_digits_numeral:
  "hex_digits (numeral k) n = hex_digits (pred_numeral k) (n div 16) @ [hex_digit n]"
  by (simp only: numeral_eq_Suc [of k] hex_digits.simps)

lemma ex_new_oid: "new_oid ex_db = Oid ''000000000000000000000100''"
  by (simp add: new_oid_def ex_db_def hex_digits_numeral hex_digit_def)

text \<open>
  C7, as the claim states it, fails: a request whose title is the empty string is
  accepted, and a story with the empty title is stored.
\<close>

theorem post_stories_empty_title_stored:
  "fst (post_stories ex_empty_title ex_db) = Inr ''000000000000000000000100'' \<and>
   map story_title (stories (snd (post_stories ex_empty_title ex_db))) = [Some ''A'', Some []]"
proof -
  have "post_stories ex_empty_title ex_db =
     (Inr (str (new_oid ex_db)),
      log_op (InsertOne ''story'')
        (ex_db\<lparr>stories := stories ex_db @
              [\<lparr>story_oid = new_oid ex_db, story_title = Some [], story_author = None,
                story_cover_image = None, story_description = None\<rparr>],
           next_oid := Suc (next_oid ex_db)\<rparr>))"
    by (rule post_stories_accepted) (simp_all add: ex_empty_title_def)
  then show ?thesis
    by (simp add: ex_new_oid log_op_fields) (simp add: ex_db_def ex_s1_def)
qed

text \<open>
  C7, amended. The title of a story-create request has to be a string: a request whose
  title is missing or is not a string is rejected with the request validation error (a
  client error, 422) and the store is left as it was; a request whose title is a string,
  the empty one included, and whose optional fields fit is accepted, and a story with
  that title is stored.
\<close>

theorem post_stories_title_required:
  "((\<forall>t. body ''title'' \<noteq> Some (JStr t)) \<longrightarrow>
      post_stories body d = (Inl RequestValidationError, d)) \<and>
   status_code RequestValidationError = 422 \<and>
   (body ''title'' = Some (JStr t) \<and> optional_str (body ''author'') = Inr a \<and>
    optional_str (body ''cover_image'') = Inr c \<and>
    optional_str (body ''description'') = Inr ds \<longrightarrow>
      fst (post_stories body d) = Inr (str (new_oid d)) \<and>
      stories (snd (post_stories body d)) =
        stories d @ [\<lparr>story_oid = new_oid d, story_title = Some t, story_author = a,
                       story_cover_image = c, story_description = ds\<rparr>])"
proof (intro conjI impI)
  assume "\<forall>t. body ''title'' \<noteq> Some (JStr t)"
  then show "post_stories body d = (Inl RequestValidationError, d)"
    by (rule post_stories_rejected)
next
  show "status_code RequestValidationError = 422"
    by simp
next
  assume a: "body ''title'' = Some (JStr t) \<and> optional_str (body ''author'') = Inr a \<and>
    optional_str (body ''cover_image'') = Inr c \<and>
    optional_str (body ''description'') = Inr ds"
  then have r: "post_stories body d =
     (Inr (str (new_oid d)),
      log_op (InsertOne ''story'')
        (d\<lparr>stories := stories d @
              [\<lparr>story_oid = new_oid d, story_title = Some t, story_author = a,
                story_cover_image = c, story_description = ds\<rparr>],
           next_oid := Suc (next_oid d)\<rparr>))"
    by (intro post_stories_accepted) simp_all
  show "fst (post_stories body d) = Inr (str (new_oid d))"
    by (simp add: r)
  show "stories (snd (post_stories body d)) =
      stories d @ [\<lparr>story_oid = new_oid d, story_title = Some t, story_author = a,
                     story_cover_image = c, story_description = ds\<rparr>]"
    by (simp add: r log_op_fields)
qed

theorem post_stories_title_required_witness:
  "ex_no_title ''title'' = None \<and>
   post_stories ex_no_title ex_db = (Inl RequestValidationError, ex_db) \<and>
   ex_wrong_title ''title'' = Some (JInt 5) \<and>
   post_stories ex_wrong_title ex_db = (Inl RequestValidationError, ex_db) \<and>
   ex_empty_title ''title'' = Some (JStr []) \<and>
   fst (post_stories ex_empty_title ex_db) = Inr (str (new_oid ex_db)) \<and>
   stories (snd (post_stories ex_empty_title ex_db)) =
     stories ex_db @ [\<lparr>story_oid = new_oid ex_db, story_title = Some [], story_author = None,
                        story_cover_image = None, story_description = None\<rparr>]"
proof -
  have h: "ex_no_title ''title'' = None" "ex_wrong_title ''title'' = Some (JInt 5)"
    "ex_empty_title ''title'' = Some (JStr [])"
    "optional_str (ex_empty_title ''author'') = Inr None"
    "optional_str (ex_empty_title ''cover_image'') = Inr None"
    "optional_str (ex_empty_title ''description'') = Inr None"
    by (simp_all add: ex_no_title_def ex_wrong_title_def ex_empty_title_def)
  show ?thesis
    using post_stories_title_required [of ex_no_title ex_db]
      post_stories_title_required [of ex_wrong_title ex_db]
      post_stories_title_required
        [where body = ex_empty_title and d = ex_db and t = "[]" and a = None and c = None
          and ds = None] h
    by simp
qed

lemma create_chapter_negative:
  assumes "is_valid (cc_story_id p)"
    and "ObjectId (cc_story_id p) \<in> story_oid ` set (stories d)"
    and "cc_order p < 0"
  shows "create_chapter p d = (Inl ValidationError, log_op (CountDocuments ''story'') d)"
proof -
  obtain n d1 where c: "count_documents_story (ObjectId (cc_story_id p)) d = (n, d1)"
    by (cases "count_documents_story (ObjectId (cc_story_id p)) d")
  have "n \<noteq> 0"
    using count_documents_story_0 [of "ObjectId (cc_story_id p)" d] assms(2) c by simp
  moreover have "d1 = log_op (CountDocuments ''story'') d"
    using snd_count_documents(1) [of "ObjectId (cc_story_id p)" d] c by simp
  ultimately show ?thesis
    using assms(1,3) c by (simp add: create_chapter_def ChapterSchema_def)
qed

lemma create_bubble_negative:
  assumes "is_valid (bc_chapter_id p)"
    and "ObjectId (bc_chapter_id p) \<in> chapter_oid ` set (chapters d)"
    and "bc_order p < 0"
  shows "create_bubble p d = (Inl ValidationError, log_op (CountDocuments ''chapter'') d)"
proof -
  obtain n d1 where c: "count_documents_chapter (ObjectId (bc_chapter_id p)) d = (n, d1)"
    by (cases "count_documents_chapter (ObjectId (bc_chapter_id p)) d")
  have "n \<noteq> 0"
    using count_documents_chapter_0 [of "ObjectId (bc_chapter_id p)" d] assms(2) c by simp
  moreover have "d1 = log_op (CountDocuments ''chapter'') d"
    using snd_count_documents(2) [of "ObjectId (bc_chapter_id p)" d] c by simp
  ultimately show ?thesis
    using assms(1,3) c by (simp add: create_bubble_def BubbleSchema_def)
qed

text \<open>
  C8. A chapter-create request with a negative \<^verbatim>\<open>order\<close> and the id of an existing
  story passes the payload class, which has no bound on \<^verbatim>\<open>order\<close>; the handler counts
  the parent in the store and only then builds the schema object, whose \<^verbatim>\<open>ge=0\<close>
  raises inside the handler. No chapter is written, but the error is not a rejection of
  the request before the store is touched, and it goes out as a server error. The bubble
  handler does the same.
\<close>

theorem create_negative_order:
  "create_chapter ex_negative_chapter ex_db =
     (Inl ValidationError, log_op (CountDocuments ''story'') ex_db) \<and>
   create_bubble ex_negative_bubble ex_db =
     (Inl ValidationError, log_op (CountDocuments ''chapter'') ex_db) \<and>
   status_code ValidationError = 500"
proof -
  have "create_chapter ex_negative_chapter ex_db =
      (Inl ValidationError, log_op (CountDocuments ''story'') ex_db)"
    using ex_is_valid(1) ex_parents(1)
    by (intro create_chapter_negative) (simp_all add: ex_negative_chapter_def)
  moreover have "create_bubble ex_negative_bubble ex_db =
      (Inl ValidationError, log_op (CountDocuments ''chapter'') ex_db)"
    using ex_is_valid(3) ex_parents(3)
    by (intro create_bubble_negative) (simp_all add: ex_negative_bubble_def)
  ultimately show ?thesis
    by simp
qed

end
